theory Spec2Isabelle
  imports Complex_Main
begin

section \<open>Numbers and arrays\<close>

text \<open>
  The notebook computes with NumPy arrays of IEEE doubles. The model keeps the special
  values that the code can produce (a division by zero does not raise in NumPy, it yields
  \<open>nan\<close> or an infinity) and abstracts rounding: a finite double is a real number.
  Zero is unsigned in the model; every divisor in the code is the result of a square
  root, so a zero divisor is \<open>+0.0\<close>.
\<close>

datatype npfloat = Fin real | PInf | NInf | NaN

datatype py_error = NameError | IndexError | ValueError

fun np_add :: "npfloat \<Rightarrow> npfloat \<Rightarrow> npfloat" where
  "np_add (Fin a) (Fin b) = Fin (a + b)"
| "np_add NaN _ = NaN"
| "np_add _ NaN = NaN"
| "np_add PInf NInf = NaN"
| "np_add NInf PInf = NaN"
| "np_add PInf _ = PInf"
| "np_add _ PInf = PInf"
| "np_add NInf _ = NInf"
| "np_add _ NInf = NInf"

definition inf_signed :: "bool \<Rightarrow> npfloat" where
  "inf_signed positive = (if positive then PInf else NInf)"

fun np_mul :: "npfloat \<Rightarrow> npfloat \<Rightarrow> npfloat" where
  "np_mul (Fin a) (Fin b) = Fin (a * b)"
| "np_mul NaN _ = NaN"
| "np_mul _ NaN = NaN"
| "np_mul (Fin a) PInf = (if a = 0 then NaN else inf_signed (0 < a))"
| "np_mul (Fin a) NInf = (if a = 0 then NaN else inf_signed (a < 0))"
| "np_mul PInf (Fin b) = (if b = 0 then NaN else inf_signed (0 < b))"
| "np_mul NInf (Fin b) = (if b = 0 then NaN else inf_signed (b < 0))"
| "np_mul PInf PInf = PInf"
| "np_mul NInf NInf = PInf"
| "np_mul PInf NInf = NInf"
| "np_mul NInf PInf = NInf"

fun np_div :: "npfloat \<Rightarrow> npfloat \<Rightarrow> npfloat" where
  "np_div (Fin a) (Fin b) =
     (if b \<noteq> 0 then Fin (a / b) else if a = 0 then NaN else inf_signed (0 < a))"
| "np_div NaN _ = NaN"
| "np_div _ NaN = NaN"
| "np_div (Fin a) PInf = Fin 0"
| "np_div (Fin a) NInf = Fin 0"
| "np_div PInf (Fin b) = inf_signed (0 \<le> b)"
| "np_div NInf (Fin b) = inf_signed (b < 0)"
| "np_div PInf PInf = NaN"
| "np_div PInf NInf = NaN"
| "np_div NInf PInf = NaN"
| "np_div NInf NInf = NaN"

fun np_sqrt :: "npfloat \<Rightarrow> npfloat" where
  "np_sqrt (Fin a) = (if a < 0 then NaN else Fin (sqrt a))"
| "np_sqrt PInf = PInf"
| "np_sqrt NInf = NaN"
| "np_sqrt NaN = NaN"

fun np_abs :: "npfloat \<Rightarrow> npfloat" where
  "np_abs (Fin a) = Fin \<bar>a\<bar>"
| "np_abs PInf = PInf"
| "np_abs NInf = PInf"
| "np_abs NaN = NaN"

text \<open>Comparisons with \<open>nan\<close> are false.\<close>

fun np_less :: "npfloat \<Rightarrow> npfloat \<Rightarrow> bool" where
  "np_less (Fin a) (Fin b) = (a < b)"
| "np_less NaN _ = False"
| "np_less _ NaN = False"
| "np_less _ NInf = False"
| "np_less PInf _ = False"
| "np_less NInf _ = True"
| "np_less _ PInf = True"

definition np_greater :: "npfloat \<Rightarrow> npfloat \<Rightarrow> bool" where
  "np_greater a b = np_less b a"

text \<open>The maximum reduction of NumPy propagates \<open>nan\<close>.\<close>

fun np_maximum :: "npfloat \<Rightarrow> npfloat \<Rightarrow> npfloat" where
  "np_maximum (Fin a) (Fin b) = Fin (max a b)"
| "np_maximum NaN _ = NaN"
| "np_maximum _ NaN = NaN"
| "np_maximum PInf _ = PInf"
| "np_maximum _ PInf = PInf"
| "np_maximum NInf b = b"
| "np_maximum a NInf = a"

text \<open>\<open>np.zeros(n)\<close>.\<close>

definition np_zeros :: "nat \<Rightarrow> npfloat list" where
  "np_zeros n = replicate n (Fin 0)"

text \<open>
  \<open>np.linalg.norm(x)\<close> of a one-dimensional array is \<open>sqrt(dot(x, x))\<close>;
  \<open>np.linalg.norm(x, np.inf)\<close> is \<open>abs(x).max()\<close>, which raises ValueError on an
  array of size zero (the maximum reduction has no identity).
\<close>

definition np_dot :: "npfloat list \<Rightarrow> npfloat list \<Rightarrow> npfloat" where
  "np_dot xs ys = foldl np_add (Fin 0) (map2 np_mul xs ys)"

definition np_linalg_norm :: "npfloat list \<Rightarrow> npfloat" where
  "np_linalg_norm xs = np_sqrt (np_dot xs xs)"

definition np_linalg_norm_inf :: "npfloat list \<Rightarrow> py_error + npfloat" where
  "np_linalg_norm_inf xs =
     (case map np_abs xs of
        [] \<Rightarrow> Inl ValueError
      | a # as \<Rightarrow> Inr (foldl np_maximum a as))"

section \<open>Ex 5.1: the PGS solver\<close>

text \<open>
  \<^verbatim>\<open>
  def solve_contact(G, g, mus, tol=1e-6, max_iter=100):
      nc = len(mus)
      lam = np.zeros(3*nc)
      for j in range(max_iter):
          for i in range(nc):
              ## Your code goes here
              pass
      return lam
  \<close>
  Both loop bodies are \<open>pass\<close>; \<open>range\<close> of a negative number is empty.
\<close>

definition solve_contact ::
  "npfloat list list \<Rightarrow> npfloat list \<Rightarrow> npfloat list \<Rightarrow> npfloat \<Rightarrow> int \<Rightarrow> npfloat list" where
  "solve_contact G g mus tol max_iter =
     (let nc = length mus;
          lam = np_zeros (3 * nc)
      in fold (\<lambda>j lam. fold (\<lambda>i lam. lam) [0..<nc] lam) [0..<nat max_iter] lam)"

section \<open>The projection on the second-order cone\<close>

text \<open>
  \<^verbatim>\<open>
  def SOC_projection(lam, mus):
      nc = lam.shape[0]//3
      lam_proj = np.zeros(lam.shape)
      for i in range(nc):
          norm = np.linalg.norm(lam[i*3:i*3+2])
          if norm > mus[i]*lam[i*3+2]:
              x = norm
              z = lam[i*3+2]
              friction_cone_exterior = np.array([mus[i],1])/np.linalg.norm([mus[i],1])
              projected_point = (np.array([x, z]).T@friction_cone_exterior)*friction_cone_exterior
              if projected_point[1] < 0:
                  projected_point *= 0
              lam_proj[i*3:i*3+2] = projected_point[0]*lam[i*3:i*3+2]/norm
              lam_proj[i*3+2] = projected_point[1]
          else:
              lam_proj[i*3:i*3+3] = lam[i*3:i*3+3]
      return lam_proj
  \<close>
  \<open>SOC_block\<close> is the body of the loop on the three entries of contact \<open>i\<close> and its
  friction coefficient. The division by \<open>norm\<close> has no guard.
\<close>

definition SOC_block ::
  "npfloat \<Rightarrow> npfloat \<Rightarrow> npfloat \<Rightarrow> npfloat \<Rightarrow> npfloat \<times> npfloat \<times> npfloat" where
  "SOC_block mu l0 l1 l2 =
     (let nrm = np_linalg_norm [l0, l1] in
      if np_greater nrm (np_mul mu l2) then
        (let x = nrm;
             z = l2;
             cone_nrm = np_linalg_norm [mu, Fin 1];
             fce0 = np_div mu cone_nrm;
             fce1 = np_div (Fin 1) cone_nrm;
             d = np_dot [x, z] [fce0, fce1];
             pp0 = np_mul d fce0;
             pp1 = np_mul d fce1;
             clamp = np_less pp1 (Fin 0);
             pp0 = (if clamp then np_mul pp0 (Fin 0) else pp0);
             pp1 = (if clamp then np_mul pp1 (Fin 0) else pp1)
         in (np_div (np_mul pp0 l0) nrm, np_div (np_mul pp0 l1) nrm, pp1))
      else (l0, l1, l2))"

text \<open>
  One pass of the loop. \<open>i < nc = len(lam) // 3\<close>, so the three reads of \<open>lam\<close> and the
  three writes of \<open>lam_proj\<close> are in range; \<open>mus[i]\<close> raises IndexError when the list of
  friction coefficients is shorter than \<open>nc\<close>.
\<close>

definition SOC_step ::
  "npfloat list \<Rightarrow> npfloat list \<Rightarrow> nat \<Rightarrow> npfloat list \<Rightarrow> py_error + npfloat list" where
  "SOC_step lam mus i lam_proj =
     (if i < length mus then
        (case SOC_block (mus ! i) (lam ! (i * 3)) (lam ! (i * 3 + 1)) (lam ! (i * 3 + 2)) of
           (p0, p1, p2) \<Rightarrow> Inr (lam_proj[i * 3 := p0, i * 3 + 1 := p1, i * 3 + 2 := p2]))
      else Inl IndexError)"

definition SOC_projection :: "npfloat list \<Rightarrow> npfloat list \<Rightarrow> py_error + npfloat list" where
  "SOC_projection lam mus =
     (let nc = length lam div 3;
          lam_proj = np_zeros (length lam)
      in fold (\<lambda>i r. case r of Inl e \<Rightarrow> Inl e | Inr lam_proj \<Rightarrow> SOC_step lam mus i lam_proj)
           [0..<nc] (Inr lam_proj))"

text \<open>
  The friction cone of the data model, on a block of finite values:
  \<open>{\<lambda> : \<parallel>(\<lambda>_Tx, \<lambda>_Ty)\<parallel> \<le> \<mu> \<lambda>_N, \<lambda>_N \<ge> 0}\<close>. A block with a \<open>nan\<close> or an infinite
  entry is not in the cone.
\<close>

definition in_cone :: "real \<Rightarrow> real \<Rightarrow> real \<Rightarrow> real \<Rightarrow> bool" where
  "in_cone mu a b c = (sqrt (a * a + b * b) \<le> mu * c \<and> 0 \<le> c)"

fun np_in_cone :: "npfloat \<Rightarrow> npfloat \<Rightarrow> npfloat \<Rightarrow> npfloat \<Rightarrow> bool" where
  "np_in_cone (Fin mu) (Fin a) (Fin b) (Fin c) = in_cone mu a b c"
| "np_in_cone _ _ _ _ = False"

text \<open>
  Every block of a vector of finite values lies in the cone of its friction coefficient.
\<close>

definition blocks_in_cone :: "real list \<Rightarrow> real list \<Rightarrow> bool" where
  "blocks_in_cone mus lam =
     list_all (\<lambda>k. in_cone (mus ! k) (lam ! (k * 3)) (lam ! (k * 3 + 1)) (lam ! (k * 3 + 2)))
       [0..<length mus]"

section \<open>Ex 5.2: the ADMM solver for the CCP\<close>

text \<open>
  \<^verbatim>\<open>
  def solve_contact_ADMM_CCP(G, g, mus, rho=1e1, max_iter=100):
      # Your code goes here

      return lam
  \<close>
  The body assigns no local \<open>lam\<close>, so the name is looked up among the globals of the
  notebook when the function runs: unbound it raises NameError, bound it is returned as
  it is (the simulation cells bind a global \<open>lam\<close> to the result of the previous solve).
\<close>

definition solve_contact_ADMM_CCP ::
  "(string \<rightharpoonup> 'v) \<Rightarrow> npfloat list list \<Rightarrow> npfloat list \<Rightarrow> npfloat list \<Rightarrow> npfloat \<Rightarrow> int
     \<Rightarrow> py_error + 'v" where
  "solve_contact_ADMM_CCP globals G g mus rho max_iter =
     (case globals ''lam'' of None \<Rightarrow> Inl NameError | Some lam \<Rightarrow> Inr lam)"

section \<open>Ex 5.3: the Signorini residual\<close>

text \<open>
  \<^verbatim>\<open>
  def compute_sig_residual(lambda_n, c_n, c_n_star):
      n_c = len(lambda_n)
      resid_vec = np.zeros(3*n_c)
      for i in range(n_c):
          # Your code goes here
          pass
      return np.linalg.norm(resid_vec, np.inf)
  \<close>
\<close>

definition compute_sig_residual ::
  "npfloat list \<Rightarrow> npfloat list \<Rightarrow> npfloat list \<Rightarrow> py_error + npfloat" where
  "compute_sig_residual lambda_n c_n c_n_star =
     (let n_c = length lambda_n;
          resid_vec = np_zeros (3 * n_c);
          resid_vec = fold (\<lambda>i resid_vec. resid_vec) [0..<n_c] resid_vec
      in np_linalg_norm_inf resid_vec)"

text \<open>
  The residual as the assignment text and the specification describe it, over finite
  values: for each contact the three quantities \<open>max(0, -\<lambda>)\<close>, \<open>max(0, -(c - c*))\<close>
  and \<open>\<lambda> (c - c*)\<close>, flattened, and the largest absolute value of the result.
\<close>

definition spec_residual_vector :: "real list \<Rightarrow> real list \<Rightarrow> real list \<Rightarrow> real list" where
  "spec_residual_vector lambda_n c_n c_n_star =
     concat (map (\<lambda>(l, c, cs). [max 0 (- l), max 0 (- (c - cs)), l * (c - cs)])
                 (zip lambda_n (zip c_n c_n_star)))"

definition spec_linf_norm :: "real list \<Rightarrow> real" where
  "spec_linf_norm xs = foldl max 0 (map abs xs)"

definition spec_sig_residual :: "real list \<Rightarrow> real list \<Rightarrow> real list \<Rightarrow> real" where
  "spec_sig_residual lambda_n c_n c_n_star =
     spec_linf_norm (spec_residual_vector lambda_n c_n c_n_star)"

section \<open>The dimension invariant of the data model\<close>

text \<open>
  \<open>Nc = len(mus) = len(g)/3 = G.rows/3 = G.cols/3\<close>, as the data model states it.
  No function of the notebook computes it.
\<close>

definition spec_dims_match :: "npfloat list list \<Rightarrow> npfloat list \<Rightarrow> npfloat list \<Rightarrow> bool" where
  "spec_dims_match G g mus =
     (length g = 3 * length mus \<and> length G = 3 * length mus
      \<and> list_all (\<lambda>row. length row = 3 * length mus) G)"

section \<open>Properties of the loops with empty bodies\<close>

lemma fold_pass: "fold (\<lambda>i s. s) xs s = s"
  by (induction xs) simp_all

lemma solve_contact_zeros:
  "solve_contact G g mus tol max_iter = np_zeros (3 * length mus)"
  by (simp add: solve_contact_def fold_pass)

lemma foldl_maximum_zeros:
  "foldl np_maximum (Fin 0) (replicate n (Fin 0)) = Fin 0"
  by (induction n) simp_all

lemma norm_inf_zeros:
  "0 < n \<Longrightarrow> np_linalg_norm_inf (np_zeros n) = Inr (Fin 0)"
  by (cases n) (simp_all add: np_linalg_norm_inf_def np_zeros_def foldl_maximum_zeros)

lemma compute_sig_residual_stub:
  "compute_sig_residual lambda_n c_n c_n_star =
     (if lambda_n = [] then Inl ValueError else Inr (Fin 0))"
proof (cases lambda_n)
  case Nil
  then show ?thesis
    by (simp add: compute_sig_residual_def np_linalg_norm_inf_def np_zeros_def)
next
  case (Cons l ls)
  then show ?thesis
    by (simp add: compute_sig_residual_def fold_pass norm_inf_zeros)
qed

text \<open>
  C2. For every \<open>G\<close>, \<open>g\<close>, \<open>mus\<close>, \<open>tol\<close> and \<open>max_iter\<close>, \<open>solve_contact\<close> returns the
  all-zero vector of length \<open>3 * len(mus)\<close>, and the result does not depend on \<open>G\<close>,
  \<open>g\<close>, \<open>tol\<close> or \<open>max_iter\<close>.
\<close>

theorem solve_contact_all_zero:
  "solve_contact G g mus tol max_iter = replicate (3 * length mus) (Fin 0)
   \<and> solve_contact G g mus tol max_iter = solve_contact G' g' mus tol' max_iter'"
  by (simp add: solve_contact_zeros np_zeros_def)

text \<open>
  C7. With at least one contact, \<open>compute_sig_residual\<close> returns exactly 0.0 whatever
  the three input lists hold: the residual vector is never written.
\<close>

theorem compute_sig_residual_is_zero:
  "1 \<le> length lambda_n \<Longrightarrow> compute_sig_residual lambda_n c_n c_n_star = Inr (Fin 0)"
  by (cases lambda_n) (simp_all add: compute_sig_residual_stub)

theorem compute_sig_residual_is_zero_witness:
  "1 \<le> length [Fin 3, Fin (- 2)]
   \<and> compute_sig_residual [Fin 3, Fin (- 2)] [Fin (- 4), Fin 1] [Fin 0, Fin 0] = Inr (Fin 0)"
  using compute_sig_residual_is_zero [of "[Fin 3, Fin (- 2)]" "[Fin (- 4), Fin 1]" "[Fin 0, Fin 0]"]
  by simp

text \<open>
  C6. \<open>compute_sig_residual\<close> is meant to return the infinity norm of the flattened
  residuals \<open>max(0, -\<lambda>)\<close>, \<open>max(0, -(c - c*))\<close>, \<open>\<lambda> (c - c*)\<close>. The code does not: for one
  contact with \<open>\<lambda> = 2\<close>, \<open>c = -3\<close>, \<open>c* = 0\<close> the residuals are 0, 3 and -6, of infinity
  norm 6, and the function returns 0.0.
\<close>

theorem compute_sig_residual_misses_residuals:
  "compute_sig_residual [Fin 2] [Fin (- 3)] [Fin 0] = Inr (Fin 0)
   \<and> spec_residual_vector [2] [- 3] [0] = [0, 3, - 6]
   \<and> spec_sig_residual [2] [- 3] [0] = 6"
  by (simp add: compute_sig_residual_stub spec_sig_residual_def spec_residual_vector_def
        spec_linf_norm_def)

section \<open>The solvers\<close>

text \<open>
  C1. On a valid input both solvers should return an impulse vector. \<open>solve_contact\<close>
  does; \<open>solve_contact_ADMM_CCP\<close>, called where no global \<open>lam\<close> is bound, raises
  NameError. The input is one contact with the identity as Delassus matrix.
\<close>

theorem solve_contact_ADMM_CCP_raises:
  "spec_dims_match [[Fin 1, Fin 0, Fin 0], [Fin 0, Fin 1, Fin 0], [Fin 0, Fin 0, Fin 1]]
     [Fin 0, Fin 0, Fin (- 1)] [Fin (1 / 2)]
   \<and> solve_contact [[Fin 1, Fin 0, Fin 0], [Fin 0, Fin 1, Fin 0], [Fin 0, Fin 0, Fin 1]]
       [Fin 0, Fin 0, Fin (- 1)] [Fin (1 / 2)] (Fin (1 / 1000000)) 100 = [Fin 0, Fin 0, Fin 0]
   \<and> solve_contact_ADMM_CCP (Map.empty :: string \<rightharpoonup> npfloat list)
       [[Fin 1, Fin 0, Fin 0], [Fin 0, Fin 1, Fin 0], [Fin 0, Fin 0, Fin 1]]
       [Fin 0, Fin 0, Fin (- 1)] [Fin (1 / 2)] (Fin 10) 100 = Inl NameError"
  by (simp add: spec_dims_match_def solve_contact_zeros np_zeros_def
        solve_contact_ADMM_CCP_def numeral_3_eq_3)

text \<open>
  C8. The vector returned should have length \<open>3 * Nc\<close>. \<open>solve_contact_ADMM_CCP\<close> returns
  whatever the global \<open>lam\<close> holds: after a step with four contacts has bound it to a
  vector of 12 entries, a call with one contact returns these 12 entries, not 3.
\<close>

theorem solve_contact_ADMM_CCP_stale_length:
  "solve_contact_ADMM_CCP [''lam'' \<mapsto> np_zeros 12]
       [[Fin 1, Fin 0, Fin 0], [Fin 0, Fin 1, Fin 0], [Fin 0, Fin 0, Fin 1]]
       [Fin 0, Fin 0, Fin (- 1)] [Fin (1 / 2)] (Fin 10) 100 = Inr (np_zeros 12)
   \<and> length (np_zeros 12) \<noteq> 3 * length [Fin (1 / 2)]"
  by (simp add: solve_contact_ADMM_CCP_def np_zeros_def)

text \<open>
  C10. With zero contacts both solvers should return the empty vector. \<open>solve_contact\<close>
  does; \<open>solve_contact_ADMM_CCP\<close> raises NameError where no global \<open>lam\<close> is bound.
\<close>

theorem solve_contact_ADMM_CCP_zero_contacts:
  "solve_contact [] [] [] (Fin (1 / 1000000)) 100 = []
   \<and> solve_contact_ADMM_CCP (Map.empty :: string \<rightharpoonup> npfloat list) [] [] [] (Fin 10) 100
       = Inl NameError"
  by (simp add: solve_contact_zeros np_zeros_def solve_contact_ADMM_CCP_def)

text \<open>
  C9, as stated: an input whose dimensions do not match makes \<open>solve_contact\<close> fail
  before it iterates. It does not: with a 1 x 1 matrix, one free velocity and one
  contact, \<open>solve_contact\<close> returns three zeros.
\<close>

theorem solve_contact_mismatch_counterexample:
  "\<not> spec_dims_match [[Fin 1]] [Fin 1] [Fin (1 / 2)]
   \<and> solve_contact [[Fin 1]] [Fin 1] [Fin (1 / 2)] (Fin (1 / 1000000)) 100
       = [Fin 0, Fin 0, Fin 0]"
  by (simp add: spec_dims_match_def solve_contact_zeros np_zeros_def numeral_3_eq_3)

text \<open>
  C9, amended: \<open>solve_contact\<close> validates no dimension. On every input whose dimensions
  do not match it returns, without raising, the zero vector of length \<open>3 * len(mus)\<close>.
\<close>

theorem solve_contact_tolerates_mismatch:
  "\<not> spec_dims_match G g mus
   \<Longrightarrow> solve_contact G g mus tol max_iter = replicate (3 * length mus) (Fin 0)"
  by (simp add: solve_contact_zeros np_zeros_def)

theorem solve_contact_tolerates_mismatch_witness:
  "\<not> spec_dims_match [] [Fin 1, Fin 2] [Fin (3 / 10), Fin (3 / 10)]
   \<and> solve_contact [] [Fin 1, Fin 2] [Fin (3 / 10), Fin (3 / 10)] (Fin (1 / 1000000)) 5
       = replicate (3 * length [Fin (3 / 10), Fin (3 / 10)]) (Fin 0)"
proof -
  have m: "\<not> spec_dims_match [] [Fin 1, Fin 2] [Fin (3 / 10), Fin (3 / 10)]"
    by (simp add: spec_dims_match_def)
  show ?thesis
    using m solve_contact_tolerates_mismatch [OF m, of "Fin (1 / 1000000)" 5] by simp
qed

section \<open>The projection in exact arithmetic\<close>

lemma cone_nrm_pos: "0 < sqrt (mu * mu + 1)" for mu :: real
proof -
  have "0 \<le> mu * mu" by simp
  then have "0 < mu * mu + 1" by linarith
  then show ?thesis by simp
qed

lemma pp1_closed:
  fixes mu n c :: real
  defines "q \<equiv> sqrt (mu * mu + 1)"
  shows "(n * (mu / q) + c * (1 / q)) * (1 / q) = (n * mu + c) / (mu * mu + 1)"
proof -
  have "0 \<le> mu * mu" by simp
  then have p: "0 \<le> mu * mu + 1" by linarith
  have qq: "q * q = mu * mu + 1" unfolding q_def using p by simp
  have "(n * (mu / q) + c * (1 / q)) * (1 / q) = (n * mu + c) / q / q"
    by (simp add: add_divide_distrib)
  also have "\<dots> = (n * mu + c) / (q * q)"
    by (simp only: divide_divide_eq_left)
  finally show ?thesis by (simp add: qq)
qed

lemma pp0_closed:
  fixes mu n c :: real
  defines "q \<equiv> sqrt (mu * mu + 1)"
  shows "(n * (mu / q) + c * (1 / q)) * (mu / q) = mu * ((n * mu + c) / (mu * mu + 1))"
proof -
  have "(n * (mu / q) + c * (1 / q)) * (mu / q) = mu * ((n * (mu / q) + c * (1 / q)) * (1 / q))"
    by simp
  then show ?thesis unfolding q_def by (simp only: pp1_closed)
qed

text \<open>
  The loop body on finite values: with \<open>n\<close> the tangential norm and
  \<open>s = (n \<mu> + \<lambda>_N) / (\<mu>\<^sup>2 + 1)\<close>, the projected point is \<open>(\<mu> s, s)\<close>, or \<open>(0, 0)\<close> when
  \<open>s < 0\<close>; the division by \<open>n\<close> stays as the code has it.
\<close>

lemma SOC_block_Fin:
  "SOC_block (Fin mu) (Fin a) (Fin b) (Fin c) =
     (let n = sqrt (a * a + b * b) in
      if mu * c < n then
        (let s = (n * mu + c) / (mu * mu + 1);
             p1 = (if s < 0 then 0 else s);
             p0 = mu * p1
         in (np_div (Fin (p0 * a)) (Fin n), np_div (Fin (p0 * b)) (Fin n), Fin p1))
      else (Fin a, Fin b, Fin c))"
proof -
  have nn: "\<not> a * a + b * b < 0" by (simp add: not_less)
  have "0 \<le> mu * mu" by simp
  then have nq: "\<not> mu * mu + 1 < 0" by linarith
  have q: "sqrt (mu * mu + 1) \<noteq> 0" using cone_nrm_pos [of mu] by simp
  have nrm: "np_linalg_norm [Fin a, Fin b] = Fin (sqrt (a * a + b * b))"
    using nn by (simp add: np_linalg_norm_def np_dot_def)
  have cn: "np_linalg_norm [Fin mu, Fin 1] = Fin (sqrt (mu * mu + 1))"
    using nq by (simp add: np_linalg_norm_def np_dot_def)
  have fce0: "np_div (Fin mu) (Fin (sqrt (mu * mu + 1))) = Fin (mu / sqrt (mu * mu + 1))"
    using q by simp
  have fce1: "np_div (Fin 1) (Fin (sqrt (mu * mu + 1))) = Fin (1 / sqrt (mu * mu + 1))"
    using q by simp
  have d: "np_dot [Fin n, Fin c] [Fin f0, Fin f1] = Fin (n * f0 + c * f1)" for n f0 f1
    by (simp add: np_dot_def)
  have pp1: "np_mul (Fin (n * (mu / sqrt (mu * mu + 1)) + c * (1 / sqrt (mu * mu + 1))))
                 (Fin (1 / sqrt (mu * mu + 1))) = Fin ((n * mu + c) / (mu * mu + 1))" for n
    by (simp only: np_mul.simps pp1_closed)
  have pp0: "np_mul (Fin (n * (mu / sqrt (mu * mu + 1)) + c * (1 / sqrt (mu * mu + 1))))
                 (Fin (mu / sqrt (mu * mu + 1))) = Fin (mu * ((n * mu + c) / (mu * mu + 1)))" for n
    by (simp only: np_mul.simps pp0_closed)
  show ?thesis
    unfolding SOC_block_def Let_def nrm cn fce0 fce1 d np_greater_def pp0 pp1
    by (simp del: np_div.simps(1))
qed

lemma one_block: "[0..<Suc (Suc (Suc 0)) div 3] = [0]"
  by (simp add: numeral_3_eq_3 [symmetric])

subsection \<open>The loop, block by block\<close>

text \<open>
  With at least \<open>len(lam) // 3\<close> friction coefficients the function returns an array of
  the length of \<open>lam\<close> whose blocks are the loop body applied to the blocks of \<open>lam\<close>;
  entries after the last whole block stay zero. With fewer it raises IndexError.
\<close>

lemma SOC_fold_blocks:
  assumes "n \<le> length lam div 3" and "n \<le> length mus"
  shows "\<exists>out. fold (\<lambda>i r. case r of Inl e \<Rightarrow> Inl e | Inr lam_proj \<Rightarrow> SOC_step lam mus i lam_proj)
                 [0..<n] (Inr (np_zeros (length lam))) = Inr out
           \<and> length out = length lam
           \<and> (\<forall>k<n. (out ! (k * 3), out ! (k * 3 + 1), out ! (k * 3 + 2))
                      = SOC_block (mus ! k) (lam ! (k * 3)) (lam ! (k * 3 + 1)) (lam ! (k * 3 + 2)))
           \<and> (\<forall>j. n * 3 \<le> j \<and> j < length lam \<longrightarrow> out ! j = Fin 0)"
  using assms
proof (induction n)
  case 0
  then show ?case by (simp add: np_zeros_def)
next
  case (Suc n)
  then obtain out where
    f: "fold (\<lambda>i r. case r of Inl e \<Rightarrow> Inl e | Inr lam_proj \<Rightarrow> SOC_step lam mus i lam_proj)
          [0..<n] (Inr (np_zeros (length lam))) = Inr out"
    and l: "length out = length lam"
    and b: "\<forall>k<n. (out ! (k * 3), out ! (k * 3 + 1), out ! (k * 3 + 2))
                      = SOC_block (mus ! k) (lam ! (k * 3)) (lam ! (k * 3 + 1)) (lam ! (k * 3 + 2))"
    and z: "\<forall>j. n * 3 \<le> j \<and> j < length lam \<longrightarrow> out ! j = Fin 0"
    by auto
  obtain p0 p1 p2 where
    p: "SOC_block (mus ! n) (lam ! (n * 3)) (lam ! (n * 3 + 1)) (lam ! (n * 3 + 2)) = (p0, p1, p2)"
    by (cases "SOC_block (mus ! n) (lam ! (n * 3)) (lam ! (n * 3 + 1)) (lam ! (n * 3 + 2))")
  let ?out = "out[n * 3 := p0, n * 3 + 1 := p1, n * 3 + 2 := p2]"
  from Suc.prems have bound: "n * 3 + 2 < length lam" and m: "n < length mus" by auto
  have step: "fold (\<lambda>i r. case r of Inl e \<Rightarrow> Inl e | Inr lam_proj \<Rightarrow> SOC_step lam mus i lam_proj)
          [0..<Suc n] (Inr (np_zeros (length lam))) = Inr ?out"
    using f p m by (simp add: SOC_step_def)
  have old: "?out ! (k * 3 + r) = out ! (k * 3 + r)" if "k < n" "r < 3" for k r
    using that by simp
  have new: "(?out ! (n * 3), ?out ! (n * 3 + 1), ?out ! (n * 3 + 2)) = (p0, p1, p2)"
    using bound l by simp
  have blocks: "(?out ! (k * 3), ?out ! (k * 3 + 1), ?out ! (k * 3 + 2))
                      = SOC_block (mus ! k) (lam ! (k * 3)) (lam ! (k * 3 + 1)) (lam ! (k * 3 + 2))"
    if "k < Suc n" for k
  proof (cases "k = n")
    case True
    then show ?thesis using new p by simp
  next
    case False
    with that have kn: "k < n" by simp
    have "?out ! (k * 3) = out ! (k * 3)" using old [OF kn, of 0] by simp
    moreover have "?out ! (k * 3 + 1) = out ! (k * 3 + 1)" using old [OF kn, of 1] by simp
    moreover have "?out ! (k * 3 + 2) = out ! (k * 3 + 2)" using old [OF kn, of 2] by simp
    ultimately show ?thesis using b kn by simp
  qed
  have zeros: "?out ! j = Fin 0" if "Suc n * 3 \<le> j" "j < length lam" for j
    using that z by simp
  show ?case
    using step l blocks zeros by (intro exI [of _ ?out]) simp
qed

lemma SOC_fold_error:
  "fold (\<lambda>i r. case r of Inl e \<Rightarrow> Inl e | Inr lam_proj \<Rightarrow> SOC_step lam mus i lam_proj) xs (Inl e)
     = Inl e"
  by (induction xs) simp_all

lemma SOC_projection_blocks:
  assumes "length lam div 3 \<le> length mus"
  shows "\<exists>out. SOC_projection lam mus = Inr out \<and> length out = length lam
           \<and> (\<forall>k<length lam div 3. (out ! (k * 3), out ! (k * 3 + 1), out ! (k * 3 + 2))
                      = SOC_block (mus ! k) (lam ! (k * 3)) (lam ! (k * 3 + 1)) (lam ! (k * 3 + 2)))
           \<and> (\<forall>j. length lam div 3 * 3 \<le> j \<and> j < length lam \<longrightarrow> out ! j = Fin 0)"
  using SOC_fold_blocks [OF order_refl assms] by (simp add: SOC_projection_def)

lemma SOC_projection_IndexError:
  assumes "length mus < length lam div 3"
  shows "SOC_projection lam mus = Inl IndexError"
proof -
  obtain out where
    f: "fold (\<lambda>i r. case r of Inl e \<Rightarrow> Inl e | Inr lam_proj \<Rightarrow> SOC_step lam mus i lam_proj)
          [0..<length mus] (Inr (np_zeros (length lam))) = Inr out"
    using SOC_fold_blocks [of "length mus" lam mus] assms by auto
  have "[0..<length lam div 3] = [0..<length mus] @ length mus # [Suc (length mus)..<length lam div 3]"
    using assms by (metis upt_add_eq_append upt_conv_Cons le_add_diff_inverse less_imp_le_nat zero_le add.commute)
  then show ?thesis
    using f by (simp add: SOC_projection_def SOC_step_def SOC_fold_error)
qed

subsection \<open>One block\<close>

text \<open>
  A block that passes the feasibility test is copied. A block with zero tangential part
  is copied when \<open>\<mu> \<lambda>_N \<ge> 0\<close> and becomes \<open>(nan, nan, 0)\<close> otherwise. A block with a
  tangential part that is not zero is sent into its cone, and a finite result is a fixed
  point of the loop body.
\<close>

lemma SOC_block_feasible_unchanged:
  "sqrt (a * a + b * b) \<le> mu * c
   \<Longrightarrow> SOC_block (Fin mu) (Fin a) (Fin b) (Fin c) = (Fin a, Fin b, Fin c)"
  by (simp add: SOC_block_Fin)

lemma SOC_block_zero_tangential:
  assumes "0 \<le> mu"
  shows "SOC_block (Fin mu) (Fin 0) (Fin 0) (Fin c) =
           (if mu * c < 0 then (NaN, NaN, Fin 0) else (Fin 0, Fin 0, Fin c))"
proof (cases "mu * c < 0")
  case True
  with assms have "c < 0" by (simp add: mult_less_0_iff)
  moreover have "0 < mu * mu + 1" using cone_nrm_pos [of mu] by simp
  ultimately have "c / (mu * mu + 1) < 0" by (simp add: divide_neg_pos)
  with True show ?thesis by (simp add: SOC_block_Fin)
next
  case False
  then show ?thesis by (simp add: SOC_block_Fin)
qed

lemma scaled_tangent_norm:
  fixes a b t :: real
  assumes "0 < sqrt (a * a + b * b)" and "0 \<le> t"
  shows "sqrt ((t * a / sqrt (a * a + b * b)) * (t * a / sqrt (a * a + b * b))
             + (t * b / sqrt (a * a + b * b)) * (t * b / sqrt (a * a + b * b))) = t"
proof -
  define n where "n = sqrt (a * a + b * b)"
  have "0 < n" using assms(1) unfolding n_def .
  then have n0: "n \<noteq> 0" by simp
  have "0 \<le> a * a + b * b" by simp
  then have nn: "n * n = a * a + b * b" by (simp add: n_def)
  have "(t * a / n) * (t * a / n) + (t * b / n) * (t * b / n) = t * t * (a * a + b * b) / (n * n)"
    by (simp add: field_simps add_divide_distrib)
  also have "\<dots> = t * t" using n0 by (simp add: nn [symmetric])
  finally have "sqrt ((t * a / n) * (t * a / n) + (t * b / n) * (t * b / n)) = sqrt (t * t)"
    by simp
  also have "\<dots> = t" using assms(2) by simp
  finally show ?thesis by (simp add: n_def)
qed

lemma SOC_block_in_cone:
  assumes mu: "0 \<le> mu" and t: "a \<noteq> 0 \<or> b \<noteq> 0"
  shows "\<exists>a' b' c'. SOC_block (Fin mu) (Fin a) (Fin b) (Fin c) = (Fin a', Fin b', Fin c')
           \<and> in_cone mu a' b' c'"
proof -
  define n where "n = sqrt (a * a + b * b)"
  have "0 < a * a + b * b" using t by (metis add_pos_nonneg add_nonneg_pos not_real_square_gt_zero zero_le_square)
  then have npos: "0 < n" by (simp add: n_def)
  define s where "s = (n * mu + c) / (mu * mu + 1)"
  show ?thesis
  proof (cases "mu * c < n")
    case False
    then have le: "n \<le> mu * c" by simp
    with npos have "0 < mu * c" by linarith
    with mu have "0 \<le> c" by (simp add: zero_less_mult_iff)
    with le show ?thesis
      by (simp add: SOC_block_feasible_unchanged n_def [symmetric] in_cone_def)
  next
    case True
    show ?thesis
    proof (cases "s < 0")
      case neg: True
      with True npos show ?thesis
        by (simp add: SOC_block_Fin n_def [symmetric] s_def [symmetric] in_cone_def)
    next
      case pos: False
      then have ms: "0 \<le> mu * s" using mu by simp
      have "sqrt ((mu * s * a / n) * (mu * s * a / n) + (mu * s * b / n) * (mu * s * b / n)) = mu * s"
        unfolding n_def using scaled_tangent_norm [OF _ ms, of a b] npos by (simp add: n_def)
      then have "in_cone mu (mu * s * a / n) (mu * s * b / n) s"
        using pos by (simp add: in_cone_def)
      moreover have "SOC_block (Fin mu) (Fin a) (Fin b) (Fin c)
                   = (Fin (mu * s * a / n), Fin (mu * s * b / n), Fin s)"
        using True pos npos
        by (simp add: SOC_block_Fin n_def [symmetric] s_def [symmetric] Let_def)
      ultimately show ?thesis by blast
    qed
  qed
qed

lemma SOC_block_idempotent:
  assumes mu: "0 \<le> mu"
    and out: "SOC_block (Fin mu) (Fin a) (Fin b) (Fin c) = (Fin a', Fin b', Fin c')"
  shows "SOC_block (Fin mu) (Fin a') (Fin b') (Fin c') = (Fin a', Fin b', Fin c')"
proof (cases "a \<noteq> 0 \<or> b \<noteq> 0")
  case True
  from SOC_block_in_cone [OF mu True, of c] out have "in_cone mu a' b' c'" by simp
  then show ?thesis by (simp add: SOC_block_feasible_unchanged in_cone_def)
next
  case False
  then have ab: "a = 0" "b = 0" by simp_all
  show ?thesis
  proof (cases "mu * c < 0")
    case True
    with out ab mu show ?thesis by (simp add: SOC_block_zero_tangential)
  next
    case False
    with out ab mu have "a' = 0" "b' = 0" "c' = c" by (simp_all add: SOC_block_zero_tangential)
    with False mu show ?thesis by (simp add: SOC_block_zero_tangential)
  qed
qed

subsection \<open>The whole vector\<close>

text \<open>
  For \<open>lam\<close> of length \<open>3 * len(mus)\<close>: a vector whose blocks pass the feasibility test is
  returned unchanged; a finite result is returned unchanged by a second projection; and
  when no block has a zero tangential part, every block of the result is in its cone.
\<close>

lemma blocks_eqI:
  assumes lx: "length xs = 3 * n" and ly: "length ys = 3 * n"
    and b: "\<And>k. k < n \<Longrightarrow> xs ! (k * 3) = ys ! (k * 3) \<and> xs ! (k * 3 + 1) = ys ! (k * 3 + 1)
                          \<and> xs ! (k * 3 + 2) = ys ! (k * 3 + 2)"
  shows "xs = ys"
proof (rule nth_equalityI)
  show "length xs = length ys" using lx ly by simp
next
  fix j assume "j < length xs"
  then have k: "j div 3 < n" using lx by simp
  have j: "j = (j div 3) * 3 + j mod 3" by simp
  have "j mod 3 = 0 \<or> j mod 3 = 1 \<or> j mod 3 = 2" by arith
  then show "xs ! j = ys ! j"
    using b [OF k] j by (metis add.right_neutral)
qed

lemma SOC_projection_feasible_unchanged:
  assumes len: "length lam = 3 * length mus"
    and feas: "\<And>k. k < length mus \<Longrightarrow>
                 sqrt (lam ! (k * 3) * lam ! (k * 3) + lam ! (k * 3 + 1) * lam ! (k * 3 + 1))
                   \<le> mus ! k * lam ! (k * 3 + 2)"
  shows "SOC_projection (map Fin lam) (map Fin mus) = Inr (map Fin lam)"
proof -
  have nc: "length (map Fin lam) div 3 = length mus" using len by simp
  obtain out where
    r: "SOC_projection (map Fin lam) (map Fin mus) = Inr out"
    and l: "length out = length (map Fin lam)"
    and b: "\<forall>k<length (map Fin lam) div 3. (out ! (k * 3), out ! (k * 3 + 1), out ! (k * 3 + 2))
              = SOC_block (map Fin mus ! k) (map Fin lam ! (k * 3)) (map Fin lam ! (k * 3 + 1))
                  (map Fin lam ! (k * 3 + 2))"
    using SOC_projection_blocks [of "map Fin lam" "map Fin mus"] nc by auto
  have "out = map Fin lam"
  proof (rule blocks_eqI [where n = "length mus"])
    show "length out = 3 * length mus" using l len by simp
    show "length (map Fin lam) = 3 * length mus" using len by simp
  next
    fix k assume k: "k < length mus"
    then have i: "k * 3 < length lam" "k * 3 + 1 < length lam" "k * 3 + 2 < length lam"
      using len by simp_all
    have "(out ! (k * 3), out ! (k * 3 + 1), out ! (k * 3 + 2))
            = SOC_block (Fin (mus ! k)) (Fin (lam ! (k * 3))) (Fin (lam ! (k * 3 + 1)))
                (Fin (lam ! (k * 3 + 2)))"
      using b k nc i by simp
    also have "\<dots> = (Fin (lam ! (k * 3)), Fin (lam ! (k * 3 + 1)), Fin (lam ! (k * 3 + 2)))"
      using feas [OF k] by (rule SOC_block_feasible_unchanged)
    finally show "out ! (k * 3) = map Fin lam ! (k * 3)
        \<and> out ! (k * 3 + 1) = map Fin lam ! (k * 3 + 1)
        \<and> out ! (k * 3 + 2) = map Fin lam ! (k * 3 + 2)"
      using i by simp
  qed
  with r show ?thesis by simp
qed

lemma SOC_projection_idempotent_finite:
  assumes len: "length lam = 3 * length mus"
    and mus: "\<And>k. k < length mus \<Longrightarrow> 0 \<le> mus ! k"
    and fin: "SOC_projection (map Fin lam) (map Fin mus) = Inr (map Fin out)"
  shows "SOC_projection (map Fin out) (map Fin mus) = Inr (map Fin out)"
proof -
  have nc: "length (map Fin lam) div 3 = length mus" using len by simp
  obtain out' where
    r: "SOC_projection (map Fin lam) (map Fin mus) = Inr out'"
    and l: "length out' = length (map Fin lam)"
    and b: "\<forall>k<length (map Fin lam) div 3. (out' ! (k * 3), out' ! (k * 3 + 1), out' ! (k * 3 + 2))
              = SOC_block (map Fin mus ! k) (map Fin lam ! (k * 3)) (map Fin lam ! (k * 3 + 1))
                  (map Fin lam ! (k * 3 + 2))"
    using SOC_projection_blocks [of "map Fin lam" "map Fin mus"] nc by auto
  from r fin have o: "out' = map Fin out" by simp
  with l len have lo: "length out = 3 * length mus" by simp
  have nc2: "length (map Fin out) div 3 = length mus" using lo by simp
  obtain out2 where
    r2: "SOC_projection (map Fin out) (map Fin mus) = Inr out2"
    and l2: "length out2 = length (map Fin out)"
    and b2: "\<forall>k<length (map Fin out) div 3. (out2 ! (k * 3), out2 ! (k * 3 + 1), out2 ! (k * 3 + 2))
              = SOC_block (map Fin mus ! k) (map Fin out ! (k * 3)) (map Fin out ! (k * 3 + 1))
                  (map Fin out ! (k * 3 + 2))"
    using SOC_projection_blocks [of "map Fin out" "map Fin mus"] nc2 by auto
  have "out2 = map Fin out"
  proof (rule blocks_eqI [where n = "length mus"])
    show "length out2 = 3 * length mus" using l2 lo by simp
    show "length (map Fin out) = 3 * length mus" using lo by simp
  next
    fix k assume k: "k < length mus"
    then have i: "k * 3 < length lam" "k * 3 + 1 < length lam" "k * 3 + 2 < length lam"
      and j: "k * 3 < length out" "k * 3 + 1 < length out" "k * 3 + 2 < length out"
      using len lo by simp_all
    have first: "SOC_block (Fin (mus ! k)) (Fin (lam ! (k * 3))) (Fin (lam ! (k * 3 + 1)))
                (Fin (lam ! (k * 3 + 2)))
             = (Fin (out ! (k * 3)), Fin (out ! (k * 3 + 1)), Fin (out ! (k * 3 + 2)))"
    proof -
      have "(out' ! (k * 3), out' ! (k * 3 + 1), out' ! (k * 3 + 2))
            = SOC_block (Fin (mus ! k)) (Fin (lam ! (k * 3))) (Fin (lam ! (k * 3 + 1)))
                (Fin (lam ! (k * 3 + 2)))"
        using b k nc i by simp
      moreover have "out' ! (k * 3) = Fin (out ! (k * 3))" "out' ! (k * 3 + 1) = Fin (out ! (k * 3 + 1))"
        "out' ! (k * 3 + 2) = Fin (out ! (k * 3 + 2))"
        using o j by simp_all
      ultimately show ?thesis by simp
    qed
    have "(out2 ! (k * 3), out2 ! (k * 3 + 1), out2 ! (k * 3 + 2))
            = SOC_block (Fin (mus ! k)) (Fin (out ! (k * 3))) (Fin (out ! (k * 3 + 1)))
                (Fin (out ! (k * 3 + 2)))"
      using b2 k nc2 j by simp
    also have "\<dots> = (Fin (out ! (k * 3)), Fin (out ! (k * 3 + 1)), Fin (out ! (k * 3 + 2)))"
      using mus [OF k] first by (rule SOC_block_idempotent)
    finally show "out2 ! (k * 3) = map Fin out ! (k * 3)
        \<and> out2 ! (k * 3 + 1) = map Fin out ! (k * 3 + 1)
        \<and> out2 ! (k * 3 + 2) = map Fin out ! (k * 3 + 2)"
      using j by simp
  qed
  with r2 show ?thesis by simp
qed

lemma SOC_projection_in_cone:
  assumes len: "length lam = 3 * length mus"
    and mus: "\<And>k. k < length mus \<Longrightarrow> 0 \<le> mus ! k"
    and tang: "\<And>k. k < length mus \<Longrightarrow> lam ! (k * 3) \<noteq> 0 \<or> lam ! (k * 3 + 1) \<noteq> 0"
  shows "\<exists>out. SOC_projection (map Fin lam) (map Fin mus) = Inr out \<and> length out = length lam
           \<and> (\<forall>k<length mus.
                 np_in_cone (Fin (mus ! k)) (out ! (k * 3)) (out ! (k * 3 + 1)) (out ! (k * 3 + 2)))"
proof -
  have nc: "length (map Fin lam) div 3 = length mus" using len by simp
  obtain out where
    r: "SOC_projection (map Fin lam) (map Fin mus) = Inr out"
    and l: "length out = length (map Fin lam)"
    and b: "\<forall>k<length (map Fin lam) div 3. (out ! (k * 3), out ! (k * 3 + 1), out ! (k * 3 + 2))
              = SOC_block (map Fin mus ! k) (map Fin lam ! (k * 3)) (map Fin lam ! (k * 3 + 1))
                  (map Fin lam ! (k * 3 + 2))"
    using SOC_projection_blocks [of "map Fin lam" "map Fin mus"] nc by auto
  have "np_in_cone (Fin (mus ! k)) (out ! (k * 3)) (out ! (k * 3 + 1)) (out ! (k * 3 + 2))"
    if k: "k < length mus" for k
  proof -
    from k have i: "k * 3 < length lam" "k * 3 + 1 < length lam" "k * 3 + 2 < length lam"
      using len by simp_all
    have e: "(out ! (k * 3), out ! (k * 3 + 1), out ! (k * 3 + 2))
            = SOC_block (Fin (mus ! k)) (Fin (lam ! (k * 3))) (Fin (lam ! (k * 3 + 1)))
                (Fin (lam ! (k * 3 + 2)))"
      using b k nc i by simp
    from SOC_block_in_cone [OF mus [OF k] tang [OF k], of "lam ! (k * 3 + 2)"] e
    show ?thesis by auto
  qed
  with r l show ?thesis by simp
qed

subsection \<open>Projecting twice\<close>

text \<open>
  A block that holds \<open>nan\<close> in its tangential entries fails the test \<open>norm > \<dots>\<close> (a
  comparison with \<open>nan\<close> is false) and is copied. So the result of the loop body on a
  finite block, \<open>nan\<close> or not, is a fixed point of the loop body.
\<close>

lemma np_less_NaN: "np_less x NaN = False"
  by (cases x) simp_all

lemma SOC_block_nan_copied:
  "SOC_block mu NaN NaN c = (NaN, NaN, c)"
  by (simp add: SOC_block_def np_linalg_norm_def np_dot_def np_greater_def np_less_NaN)

lemma SOC_block_fixed_point:
  assumes mu: "0 \<le> mu"
    and out: "SOC_block (Fin mu) (Fin a) (Fin b) (Fin c) = (p0, p1, p2)"
  shows "SOC_block (Fin mu) p0 p1 p2 = (p0, p1, p2)"
proof (cases "a \<noteq> 0 \<or> b \<noteq> 0")
  case True
  from SOC_block_in_cone [OF mu True, of c] out
  obtain a' b' c' where "p0 = Fin a'" "p1 = Fin b'" "p2 = Fin c'" by auto
  with out mu show ?thesis by (simp add: SOC_block_idempotent)
next
  case False
  then have ab: "a = 0" "b = 0" by simp_all
  show ?thesis
  proof (cases "mu * c < 0")
    case True
    with out ab mu have "(p0, p1, p2) = (NaN, NaN, Fin 0)"
      by (auto simp add: SOC_block_zero_tangential)
    then have "p0 = NaN" "p1 = NaN" by simp_all
    then show ?thesis by (simp add: SOC_block_nan_copied)
  next
    case False
    with out ab mu have "(p0, p1, p2) = (Fin 0, Fin 0, Fin c)"
      by (auto simp add: SOC_block_zero_tangential)
    then have "p0 = Fin 0" "p1 = Fin 0" "p2 = Fin c" by simp_all
    with False mu show ?thesis by (simp add: SOC_block_zero_tangential)
  qed
qed

lemma blocks_in_cone_nth:
  "blocks_in_cone mus lam \<Longrightarrow> k < length mus
   \<Longrightarrow> in_cone (mus ! k) (lam ! (k * 3)) (lam ! (k * 3 + 1)) (lam ! (k * 3 + 2))"
  by (simp add: blocks_in_cone_def list_all_iff)

lemma SOC_projection_fixed_point:
  assumes len: "length lam = 3 * length mus"
    and mus: "\<And>k. k < length mus \<Longrightarrow> 0 \<le> mus ! k"
  shows "\<exists>out. SOC_projection (map Fin lam) (map Fin mus) = Inr out
           \<and> SOC_projection out (map Fin mus) = Inr out"
proof -
  have nc: "length (map Fin lam) div 3 = length mus" using len by simp
  obtain out where
    r: "SOC_projection (map Fin lam) (map Fin mus) = Inr out"
    and l: "length out = length (map Fin lam)"
    and b: "\<forall>k<length (map Fin lam) div 3. (out ! (k * 3), out ! (k * 3 + 1), out ! (k * 3 + 2))
              = SOC_block (map Fin mus ! k) (map Fin lam ! (k * 3)) (map Fin lam ! (k * 3 + 1))
                  (map Fin lam ! (k * 3 + 2))"
    using SOC_projection_blocks [of "map Fin lam" "map Fin mus"] nc by auto
  from l len have lo: "length out = 3 * length mus" by simp
  then have nc2: "length out div 3 = length mus" by simp
  obtain out2 where
    r2: "SOC_projection out (map Fin mus) = Inr out2"
    and l2: "length out2 = length out"
    and b2: "\<forall>k<length out div 3. (out2 ! (k * 3), out2 ! (k * 3 + 1), out2 ! (k * 3 + 2))
              = SOC_block (map Fin mus ! k) (out ! (k * 3)) (out ! (k * 3 + 1)) (out ! (k * 3 + 2))"
    using SOC_projection_blocks [of out "map Fin mus"] nc2 by auto
  have "out2 = out"
  proof (rule blocks_eqI [where n = "length mus"])
    show "length out2 = 3 * length mus" using l2 lo by simp
    show "length out = 3 * length mus" by (rule lo)
  next
    fix k assume k: "k < length mus"
    then have i: "k * 3 < length lam" "k * 3 + 1 < length lam" "k * 3 + 2 < length lam"
      using len by simp_all
    have first: "SOC_block (Fin (mus ! k)) (Fin (lam ! (k * 3))) (Fin (lam ! (k * 3 + 1)))
                (Fin (lam ! (k * 3 + 2)))
             = (out ! (k * 3), out ! (k * 3 + 1), out ! (k * 3 + 2))"
      using b k nc i by simp
    have "(out2 ! (k * 3), out2 ! (k * 3 + 1), out2 ! (k * 3 + 2))
            = SOC_block (Fin (mus ! k)) (out ! (k * 3)) (out ! (k * 3 + 1)) (out ! (k * 3 + 2))"
      using b2 k nc2 by simp
    also have "\<dots> = (out ! (k * 3), out ! (k * 3 + 1), out ! (k * 3 + 2))"
      using mus [OF k] first by (rule SOC_block_fixed_point)
    finally show "out2 ! (k * 3) = out ! (k * 3) \<and> out2 ! (k * 3 + 1) = out ! (k * 3 + 1)
        \<and> out2 ! (k * 3 + 2) = out ! (k * 3 + 2)"
      by simp
  qed
  with r r2 show ?thesis by simp
qed

lemma two_blocks: "[0..<Suc (Suc 0)] = [0, 1]"
  by (simp add: upt_rec)

lemma SOC_projection_nan_fixed_point:
  "SOC_projection [Fin 0, Fin 0, Fin (- 2)] [Fin (1 / 2)] = Inr [NaN, NaN, Fin 0]
   \<and> SOC_projection [NaN, NaN, Fin 0] [Fin (1 / 2)] = Inr [NaN, NaN, Fin 0]"
  by (simp add: SOC_projection_def SOC_step_def SOC_block_def np_zeros_def one_block
        np_linalg_norm_def np_dot_def np_greater_def Let_def)

text \<open>
  C5. In exact arithmetic, for every \<open>lam\<close> of finite values of length \<open>3 * len(mus)\<close> and
  friction coefficients that are not negative, \<open>SOC_projection\<close> returns an array that a
  second projection returns as it is; and when every block of \<open>lam\<close> lies in its cone
  (tangential norm at most \<open>\<mu>\<close> times the normal component, normal component not
  negative), the projection returns \<open>lam\<close> unchanged.
\<close>

theorem SOC_projection_idempotent:
  assumes "length lam = 3 * length mus" and "list_all (\<lambda>m. 0 \<le> m) mus"
  shows "(\<exists>out. SOC_projection (map Fin lam) (map Fin mus) = Inr out
            \<and> SOC_projection out (map Fin mus) = Inr out)
         \<and> (blocks_in_cone mus lam
              \<longrightarrow> SOC_projection (map Fin lam) (map Fin mus) = Inr (map Fin lam))"
proof
  have "0 \<le> mus ! k" if "k < length mus" for k
    using assms(2) that by (simp add: list_all_length)
  then show "\<exists>out. SOC_projection (map Fin lam) (map Fin mus) = Inr out
            \<and> SOC_projection out (map Fin mus) = Inr out"
    using assms(1) by (rule SOC_projection_fixed_point [rotated])
next
  show "blocks_in_cone mus lam
          \<longrightarrow> SOC_projection (map Fin lam) (map Fin mus) = Inr (map Fin lam)"
  proof
    assume f: "blocks_in_cone mus lam"
    show "SOC_projection (map Fin lam) (map Fin mus) = Inr (map Fin lam)"
    proof (rule SOC_projection_feasible_unchanged [OF assms(1)])
      fix k assume "k < length mus"
      from blocks_in_cone_nth [OF f this]
      show "sqrt (lam ! (k * 3) * lam ! (k * 3) + lam ! (k * 3 + 1) * lam ! (k * 3 + 1))
              \<le> mus ! k * lam ! (k * 3 + 2)"
        by (simp add: in_cone_def)
    qed
  qed
qed

theorem SOC_projection_idempotent_witness:
  "length [0, 2, 10, 0, 0, 1 :: real] = 3 * length [1 / 2, 0 :: real]
   \<and> list_all (\<lambda>m. 0 \<le> m) [1 / 2, 0 :: real]
   \<and> blocks_in_cone [1 / 2, 0] [0, 2, 10, 0, 0, 1]
   \<and> SOC_projection (map Fin [0, 2, 10, 0, 0, 1]) (map Fin [1 / 2, 0])
       = Inr (map Fin [0, 2, 10, 0, 0, 1])
   \<and> (\<exists>out. SOC_projection (map Fin [0, 2, 10, 0, 0, 1]) (map Fin [1 / 2, 0]) = Inr out
         \<and> SOC_projection out (map Fin [1 / 2, 0]) = Inr out)"
proof -
  have l: "length [0, 2, 10, 0, 0, 1 :: real] = 3 * length [1 / 2, 0 :: real]" by simp
  have m: "list_all (\<lambda>m. 0 \<le> m) [1 / 2, 0 :: real]" by simp
  have c: "blocks_in_cone [1 / 2, 0] [0, 2, 10, 0, 0, 1]"
    by (simp add: blocks_in_cone_def in_cone_def two_blocks)
  show ?thesis
    using l m c SOC_projection_idempotent [OF l m] by simp
qed

subsection \<open>Where the projection leaves the cone\<close>

text \<open>
  C3. Every block of the output should lie in its friction cone, with a normal component
  that is not negative. With \<open>\<mu> = 0\<close>, the block \<open>(0, 0, -5)\<close> passes the test
  \<open>norm > mus[i]*lam[i*3+2]\<close> as feasible (\<open>0 > 0\<close> is false) and is copied: the output has
  the normal component -5.
\<close>

theorem SOC_projection_keeps_negative_normal:
  "SOC_projection [Fin 0, Fin 0, Fin (- 5)] [Fin 0] = Inr [Fin 0, Fin 0, Fin (- 5)]
   \<and> \<not> np_in_cone (Fin 0) (Fin 0) (Fin 0) (Fin (- 5))"
  by (simp add: SOC_projection_def SOC_step_def SOC_block_def np_zeros_def one_block
        np_linalg_norm_def np_dot_def np_greater_def in_cone_def Let_def)

text \<open>
  C4. A block with zero tangential components should give zero tangential components,
  the division by the tangential norm being guarded. The code has no guard: with
  \<open>\<mu> = 1\<close>, the block \<open>(0, 0, -1)\<close> is clamped to the origin and then divided by its
  tangential norm 0, and both tangential components of the output are \<open>nan\<close>.
\<close>

theorem SOC_projection_zero_tangential_nan:
  "SOC_projection [Fin 0, Fin 0, Fin (- 1)] [Fin 1] = Inr [NaN, NaN, Fin 0]"
  by (simp add: SOC_projection_def SOC_step_def SOC_block_def np_zeros_def one_block
        np_linalg_norm_def np_dot_def np_greater_def Let_def)

end
